theory Spec2Isabelle
  imports Complex_Main
begin

section \<open>The syntax tree that static analysis walks\<close>

text \<open>
  \<^verbatim>\<open>inspector.py\<close> never builds a tree itself: it receives one from \<^verbatim>\<open>ast.parse\<close> and
  looks at it through \<^verbatim>\<open>ast.walk\<close>, \<^verbatim>\<open>isinstance\<close> and, for a \<^verbatim>\<open>BoolOp\<close>, \<^verbatim>\<open>len(node.values)\<close>.
  A node is therefore its class and its child nodes, in the order \<^verbatim>\<open>ast.iter_child_nodes\<close>
  yields them. \<^verbatim>\<open>BoolOp\<close> has a constructor of its own because the code reads its
  \<^verbatim>\<open>values\<close> field; its operator (\<^verbatim>\<open>ast.And()\<close> or \<^verbatim>\<open>ast.Or()\<close>) is a child node as well
  and is walked like the operands.
\<close>

datatype ast_class =
    ast_Module | ast_FunctionDef | ast_AsyncFunctionDef | ast_ClassDef
  | ast_Import | ast_ImportFrom
  | ast_If | ast_While | ast_For | ast_Try | ast_ExceptHandler
  | ast_AsyncFor | ast_AsyncWith | ast_Match
  | ast_With | ast_IfExp | ast_TryStar | ast_match_case | ast_comprehension
  | ast_And | ast_Or
  | ast_other string

datatype boolop = And | Or

datatype node =
    Node ast_class "node list"
  | BoolOp boolop "node list"

fun op_node :: "boolop \<Rightarrow> node" where
  "op_node And = Node ast_And []"
| "op_node Or = Node ast_Or []"

fun iter_child_nodes :: "node \<Rightarrow> node list" where
  "iter_child_nodes (Node c cs) = cs"
| "iter_child_nodes (BoolOp op vs) = op_node op # vs"

text \<open>The number of nodes \<^verbatim>\<open>ast.walk\<close> will yield for a tree: the measure of the walk.\<close>

fun tree_size :: "node \<Rightarrow> nat" where
  "tree_size (Node c cs) = Suc (sum_list (map tree_size cs))"
| "tree_size (BoolOp op vs) = Suc (Suc (sum_list (map tree_size vs)))"

text \<open>
  \<^verbatim>\<open>ast.walk\<close> keeps a deque \<^verbatim>\<open>todo\<close>, pops a node from the left, appends the node's
  children on the right and yields the node: a breadth-first order.
\<close>

function walk_todo :: "node list \<Rightarrow> node list" where
  "walk_todo [] = []"
| "walk_todo (n # todo) = n # walk_todo (todo @ iter_child_nodes n)"
  by pat_completeness auto
termination
proof (relation "measure (\<lambda>todo. sum_list (map tree_size todo))")
  show "wf (measure (\<lambda>todo. sum_list (map tree_size todo)))" by simp
next
  fix n :: node and todo :: "node list"
  show "(todo @ iter_child_nodes n, n # todo) \<in> measure (\<lambda>todo. sum_list (map tree_size todo))"
  proof (cases n)
    case (Node c cs)
    then show ?thesis by simp
  next
    case (BoolOp op vs)
    then show ?thesis by (cases op) simp_all
  qed
qed

definition walk :: "node \<Rightarrow> node list" where
  "walk tree = walk_todo [tree]"

text \<open>
  \<^verbatim>\<open>isinstance(node, (C1, ..., Ck))\<close> for classes other than \<^verbatim>\<open>BoolOp\<close>; the classes of
  \<^verbatim>\<open>ast\<close> that the parser produces have no subclasses.
\<close>

fun isinstance :: "node \<Rightarrow> ast_class list \<Rightarrow> bool" where
  "isinstance (Node c cs) classes = List.member classes c"
| "isinstance (BoolOp op vs) classes = False"

fun is_BoolOp :: "node \<Rightarrow> bool" where
  "is_BoolOp (BoolOp op vs) = True"
| "is_BoolOp (Node c cs) = False"

section \<open>Cyclomatic complexity (\<^verbatim>\<open>CodeInspector._calculate_complexity\<close>)\<close>

text \<open>
  The body of the \<^verbatim>\<open>for node in ast.walk(tree)\<close> loop: two independent \<^verbatim>\<open>if\<close>
  statements updating the Python integer \<^verbatim>\<open>complexity\<close>.
\<close>

fun complexity_step :: "int \<Rightarrow> node \<Rightarrow> int" where
  "complexity_step complexity n =
     (let complexity =
            (if isinstance n [ast_If, ast_While, ast_For, ast_Try, ast_ExceptHandler,
                              ast_AsyncFor, ast_AsyncWith, ast_Match]
             then complexity + 1 else complexity)
      in case n of
           BoolOp op vs \<Rightarrow> complexity + (int (length vs) - 1)
         | Node c cs \<Rightarrow> complexity)"

definition calculate_complexity :: "node \<Rightarrow> int" where
  "calculate_complexity tree = foldl complexity_step 1 (walk tree)"

text \<open>
  The method looks the name \<^verbatim>\<open>ast.walk\<close> up in the module at every call.
  \<open>calculate_complexity\<close> is the method with the library's own \<^verbatim>\<open>ast.walk\<close>;
  \<open>calculate_complexity_with w\<close> is the method when the name is bound to \<open>w\<close>.
\<close>

definition calculate_complexity_with :: "(node \<Rightarrow> node list) \<Rightarrow> node \<Rightarrow> int" where
  "calculate_complexity_with w tree = foldl complexity_step 1 (w tree)"

subsection \<open>Counting over the tree itself\<close>

text \<open>
  The vocabulary in which the complexity claims are stated: how many nodes of a tree
  satisfy a predicate, and the sum of \<open>n - 1\<close> over its boolean operations of \<open>n\<close>
  operands. Both recurse on the tree and know nothing of the walk.
\<close>

fun count_nodes :: "(node \<Rightarrow> bool) \<Rightarrow> node \<Rightarrow> nat" where
  "count_nodes P (Node c cs) =
     (if P (Node c cs) then 1 else 0) + sum_list (map (count_nodes P) cs)"
| "count_nodes P (BoolOp op vs) =
     (if P (BoolOp op vs) then 1 else 0) + (if P (op_node op) then 1 else 0)
       + sum_list (map (count_nodes P) vs)"

fun boolop_extra :: "node \<Rightarrow> int" where
  "boolop_extra (Node c cs) = sum_list (map boolop_extra cs)"
| "boolop_extra (BoolOp op vs) = int (length vs) - 1 + sum_list (map boolop_extra vs)"

text \<open>The statements the code adds one for.\<close>

definition counted_statement :: "node \<Rightarrow> bool" where
  "counted_statement n =
     isinstance n [ast_If, ast_While, ast_For, ast_Try, ast_ExceptHandler,
                   ast_AsyncFor, ast_AsyncWith, ast_Match]"

text \<open>
  The score as the specification words it: one for each conditional (\<^verbatim>\<open>if\<close>), loop
  (\<^verbatim>\<open>while\<close>, \<^verbatim>\<open>for\<close>, \<^verbatim>\<open>async for\<close>), exception-handling clause (\<^verbatim>\<open>except\<close>) and
  pattern-match arm (\<^verbatim>\<open>case\<close>), and \<open>n - 1\<close> for each boolean combination.
\<close>

definition spec_decision_point :: "node \<Rightarrow> bool" where
  "spec_decision_point n =
     isinstance n [ast_If, ast_While, ast_For, ast_AsyncFor, ast_ExceptHandler, ast_match_case]"

definition spec_complexity :: "node \<Rightarrow> int" where
  "spec_complexity tree = 1 + int (count_nodes spec_decision_point tree) + boolop_extra tree"

text \<open>
  A branch construct in the widest sense: every conditional, loop, exception or
  pattern-matching form of the grammar, and every short-circuiting boolean operation.
\<close>

fun branch_construct :: "node \<Rightarrow> bool" where
  "branch_construct (BoolOp op vs) = True"
| "branch_construct (Node c cs) =
     List.member [ast_If, ast_IfExp, ast_While, ast_For, ast_AsyncFor, ast_comprehension,
                  ast_Try, ast_TryStar, ast_ExceptHandler, ast_Match, ast_match_case] c"

definition is_AsyncWith :: "node \<Rightarrow> bool" where
  "is_AsyncWith n = isinstance n [ast_AsyncWith]"

text \<open>
  What the grammar guarantees of every tree \<^verbatim>\<open>ast.parse\<close> returns: a boolean operation
  joins at least two operands.
\<close>

fun parser_shaped :: "node \<Rightarrow> bool" where
  "parser_shaped (Node c cs) = list_all parser_shaped cs"
| "parser_shaped (BoolOp op vs) = (2 \<le> length vs \<and> list_all parser_shaped vs)"

text \<open>
  Adding a construct to a program. \<open>wrap_children i n k pre post\<close> puts a new node of
  class \<open>k\<close> at position \<open>i\<close> of a child list; the new node takes \<open>n\<close> of the existing
  children (from position \<open>i\<close> on) as part of its own body, between the new children \<open>pre\<close>
  (a test, a loop target) and \<open>post\<close> (an \<^verbatim>\<open>else\<close> branch, handlers). With \<open>n = 0\<close> the
  construct is inserted beside what was there. \<open>add_construct path f\<close> applies \<open>f\<close> to the
  child list of the node that \<open>path\<close> (child indices from the root) leads to; a path
  that leaves the tree, or ends at a boolean operation, changes nothing.
\<close>

definition wrap_children ::
  "nat \<Rightarrow> nat \<Rightarrow> ast_class \<Rightarrow> node list \<Rightarrow> node list \<Rightarrow> node list \<Rightarrow> node list" where
  "wrap_children i n k pre post cs =
     take i cs @ [Node k (pre @ take n (drop i cs) @ post)] @ drop (i + n) cs"

fun add_construct :: "nat list \<Rightarrow> (node list \<Rightarrow> node list) \<Rightarrow> node \<Rightarrow> node" where
  "add_construct [] f (Node c cs) = Node c (f cs)"
| "add_construct [] f (BoolOp op vs) = BoolOp op vs"
| "add_construct (p # ps) f (Node c cs) =
     (if p < length cs then Node c (cs[p := add_construct ps f (cs ! p)]) else Node c cs)"
| "add_construct (p # ps) f (BoolOp op vs) =
     (if p < length vs then BoolOp op (vs[p := add_construct ps f (vs ! p)]) else BoolOp op vs)"

text \<open>
  What one tree contributes to the loop's accumulator, by recursion on the tree.
\<close>

fun weight :: "node \<Rightarrow> int" where
  "weight (Node c cs) =
     (if counted_statement (Node c cs) then 1 else 0) + sum_list (map weight cs)"
| "weight (BoolOp op vs) = int (length vs) - 1 + sum_list (map weight vs)"

subsection \<open>Sample trees\<close>

text \<open>
  \<^verbatim>\<open>ast.parse\<close> of
  \<^verbatim>\<open>match x:
    case 1: pass
    case 2: pass\<close>
  is \<^verbatim>\<open>Module([Match(Name('x', Load()), [match_case(MatchValue(Constant(1)), None, [Pass()]),
  match_case(MatchValue(Constant(2)), None, [Pass()])])])\<close>.
\<close>

definition match_two_arms_tree :: node where
  "match_two_arms_tree =
     Node ast_Module
       [Node ast_Match
          [Node (ast_other ''Name'') [Node (ast_other ''Load'') []],
           Node ast_match_case
             [Node (ast_other ''MatchValue'') [Node (ast_other ''Constant'') []],
              Node (ast_other ''Pass'') []],
           Node ast_match_case
             [Node (ast_other ''MatchValue'') [Node (ast_other ''Constant'') []],
              Node (ast_other ''Pass'') []]]]"

text \<open>
  \<^verbatim>\<open>ast.parse\<close> of
  \<^verbatim>\<open>async def f():
    async with a:
        pass\<close>
  is \<^verbatim>\<open>Module([AsyncFunctionDef('f', arguments(), [AsyncWith([withitem(Name('a', Load()))],
  [Pass()])])])\<close>.
\<close>

definition async_with_tree :: node where
  "async_with_tree =
     Node ast_Module
       [Node ast_AsyncFunctionDef
          [Node (ast_other ''arguments'') [],
           Node ast_AsyncWith
             [Node (ast_other ''withitem'')
                [Node (ast_other ''Name'') [Node (ast_other ''Load'') []]],
              Node (ast_other ''Pass'') []]]]"

text \<open>\<^verbatim>\<open>ast.parse("x = 1")\<close>: \<^verbatim>\<open>Module([Assign([Name('x', Store())], Constant(1))])\<close>.\<close>

definition assign_tree :: node where
  "assign_tree =
     Node ast_Module
       [Node (ast_other ''Assign'')
          [Node (ast_other ''Name'') [Node (ast_other ''Store'') []],
           Node (ast_other ''Constant'') []]]"

section \<open>Exceptions and the interpreter underneath\<close>

text \<open>
  An instance \<open>e\<close> of a built-in exception class, such as the parser raises. The code
  observes \<^verbatim>\<open>type(e).__name__\<close>, \<^verbatim>\<open>str(e)\<close>, which \<^verbatim>\<open>except\<close> clauses it matches
  (\<^verbatim>\<open>except SyntaxError\<close>, \<^verbatim>\<open>except Exception\<close>), and the \<^verbatim>\<open>lineno\<close> and \<^verbatim>\<open>offset\<close>
  attributes of a \<^verbatim>\<open>SyntaxError\<close> (Python's \<^verbatim>\<open>None\<close> is \<open>None\<close>). \<^verbatim>\<open>SystemExit\<close>,
  \<^verbatim>\<open>KeyboardInterrupt\<close> and \<^verbatim>\<open>GeneratorExit\<close> derive from \<^verbatim>\<open>BaseException\<close> only.
\<close>

record exception =
  type_name :: string
  str_of :: string
  inherits_Exception :: bool
  inherits_SyntaxError :: bool
  lineno :: "int option"
  offset :: "int option"

text \<open>
  An exception that executed code raises may be an instance of a class which that code
  defines, and \<^verbatim>\<open>str()\<close> on it runs the class's own \<^verbatim>\<open>__str__\<close>: the call returns the
  text \<open>str_of\<close>, or raises the exception itself (\<^verbatim>\<open>raise self\<close>, or a fresh instance
  of the same class), or raises another exception. \<open>builtin e\<close> is the built-in
  exception \<open>e\<close>, whose \<^verbatim>\<open>str()\<close> succeeds. (\<^verbatim>\<open>type(e).__name__\<close> is taken to succeed
  for every exception.)
\<close>

datatype fault = Fault (header: exception) (on_str: on_str)
  and on_str = Returns_text | Raises_itself | Raises_other fault

definition builtin :: "exception \<Rightarrow> fault" where
  "builtin e = Fault e Returns_text"

definition str_call :: "fault \<Rightarrow> fault + string" where
  "str_call f =
     (case on_str f of
        Returns_text \<Rightarrow> Inr (str_of (header f))
      | Raises_itself \<Rightarrow> Inl f
      | Raises_other g \<Rightarrow> Inl g)"

text \<open>A call returns a value, raises to its caller, or does not return.\<close>

datatype ('x, 'a) outcome = Returns 'a | Raises 'x | Never_returns

text \<open>
  An \<^verbatim>\<open>io.StringIO\<close> buffer holds the text written to it, until it is closed; the
  executed code reaches \<^verbatim>\<open>stdout_capture\<close> as \<^verbatim>\<open>sys.stdout\<close> and can close it. On a
  closed buffer \<^verbatim>\<open>getvalue()\<close> raises \<^verbatim>\<open>ValueError\<close>.
\<close>

datatype stringio = Open string | Closed

definition closed_file_error :: exception where
  "closed_file_error =
     \<lparr>type_name = ''ValueError'', str_of = ''I/O operation on closed file'',
      inherits_Exception = True, inherits_SyntaxError = False,
      lineno = None, offset = None\<rparr>"

fun getvalue :: "stringio \<Rightarrow> exception + string" where
  "getvalue (Open text) = Inr text"
| "getvalue Closed = Inl closed_file_error"

text \<open>
  The attributes that static analysis and classification look up at every call and that
  code run by \<^verbatim>\<open>exec\<close> in the same interpreter can rebind: \<^verbatim>\<open>ast.parse\<close>, \<^verbatim>\<open>ast.walk\<close> and
  the class attribute \<^verbatim>\<open>AdvancedErrorHandler.ERROR_TYPES\<close>. A rebound function is
  modelled by the values it returns. The other names the inspector looks up (the
  built-ins, \<^verbatim>\<open>time.time\<close>, \<^verbatim>\<open>traceback.format_exc\<close>, \<^verbatim>\<open>io\<close>, \<^verbatim>\<open>contextlib\<close>, its own
  methods) are taken to be bound as they were when the module was loaded.
\<close>

record library =
  ast_parse :: "string \<Rightarrow> exception + node"
  ast_walk :: "node \<Rightarrow> node list"
  error_types :: "(string \<times> (string \<times> string) list) list"

text \<open>
  \<^verbatim>\<open>exec(code, {}, local_vars)\<close> under the two redirections either runs forever or
  ends. When it ends it leaves \<^verbatim>\<open>stdout_capture\<close> in some state, it has written some text
  to \<^verbatim>\<open>stderr_capture\<close>, it has completed or raised, and it leaves the attributes above
  bound to some values. Only what was written through \<^verbatim>\<open>sys.stdout\<close> and \<^verbatim>\<open>sys.stderr\<close>
  reaches the two buffers; text sent to the file descriptors directly does not.
\<close>

datatype exec_outcome =
    Runs_forever
  | Ends stringio string "fault option" library

text \<open>
  The interpreter at the time of a call: the attributes above, \<^verbatim>\<open>exec\<close> with fresh empty
  dictionaries, \<^verbatim>\<open>traceback.format_exc()\<close> (which reports the exception being handled at
  the time of the call, if any), and the clock: \<open>clock py n\<close> is the value of the call
  number \<open>n\<close> of \<^verbatim>\<open>time.time()\<close> during the inspection, counted from 0.
\<close>

record python = library +
  exec :: "string \<Rightarrow> exec_outcome"
  format_exc :: "fault option \<Rightarrow> string"
  clock :: "nat \<Rightarrow> real"

text \<open>The interpreter as the execution of \<open>code\<close> leaves it.\<close>

definition after_exec :: "python \<Rightarrow> string \<Rightarrow> python" where
  "after_exec py code =
     (case exec py code of
        Runs_forever \<Rightarrow> py
      | Ends out err raised lib \<Rightarrow>
          py\<lparr>ast_parse := ast_parse lib, ast_walk := ast_walk lib,
             error_types := error_types lib\<rparr>)"

text \<open>
  An object handed to \<^verbatim>\<open>classify_error\<close>: an exception instance, or (in the runtime phase)
  an instance of \<^verbatim>\<open>str\<close>.
\<close>

datatype pyobj = Instance fault | Str string

fun type_name_of :: "pyobj \<Rightarrow> string" where
  "type_name_of (Instance f) = type_name (header f)"
| "type_name_of (Str s) = ''str''"

fun py_str :: "pyobj \<Rightarrow> fault + string" where
  "py_str (Instance f) = str_call f"
| "py_str (Str s) = Inr s"

text \<open>
  \<^verbatim>\<open>type(v)\<close> for a value \<open>v\<close> of type \<^verbatim>\<open>str\<close> is the class \<^verbatim>\<open>str\<close>, and calling that class
  on a string returns the string.
\<close>

definition type_of_str :: "string \<Rightarrow> string \<Rightarrow> pyobj" where
  "type_of_str v = Str"

text \<open>Dictionaries with string keys: \<^verbatim>\<open>d.get(k, default)\<close> and \<^verbatim>\<open>d[k]\<close>.\<close>

definition KeyError :: "string \<Rightarrow> exception" where
  "KeyError k =
     \<lparr>type_name = ''KeyError'', str_of = [CHR 0x27] @ k @ [CHR 0x27],
      inherits_Exception = True, inherits_SyntaxError = False,
      lineno = None, offset = None\<rparr>"

definition dict_get :: "(string \<times> 'v) list \<Rightarrow> string \<Rightarrow> 'v \<Rightarrow> 'v" where
  "dict_get d k dflt = (case map_of d k of None \<Rightarrow> dflt | Some v \<Rightarrow> v)"

definition subscript :: "(string \<times> 'v) list \<Rightarrow> string \<Rightarrow> exception + 'v" where
  "subscript d k = (case map_of d k of None \<Rightarrow> Inl (KeyError k) | Some v \<Rightarrow> Inr v)"

section \<open>Error classification (\<^verbatim>\<open>AdvancedErrorHandler\<close>)\<close>

text \<open>The table as the class body defines it.\<close>

definition ERROR_TYPES :: "(string \<times> (string \<times> string) list) list" where
  "ERROR_TYPES =
   [(''SyntaxError'',
       [(''category'', ''Syntax''), (''severity'', ''critical''),
        (''general_advice'',
         ''Check code syntax, indentation, and language-specific constructs.'')]),
    (''IndentationError'',
       [(''category'', ''Syntax''), (''severity'', ''critical''),
        (''general_advice'',
         ''Ensure consistent indentation. Use spaces or tabs consistently.'')]),
    (''TypeError'',
       [(''category'', ''Type Mismatch''), (''severity'', ''high''),
        (''general_advice'', ''Verify type compatibility and type conversions.'')]),
    (''ValueError'',
       [(''category'', ''Value Error''), (''severity'', ''high''),
        (''general_advice'', ''Check input values and their constraints.'')]),
    (''NameError'',
       [(''category'', ''Reference''), (''severity'', ''high''),
        (''general_advice'', ''Ensure all variables are defined before use.'')]),
    (''AttributeError'',
       [(''category'', ''Attribute''), (''severity'', ''medium''),
        (''general_advice'', ''Verify object attributes and method calls.'')]),
    (''IndexError'',
       [(''category'', ''Indexing''), (''severity'', ''high''),
        (''general_advice'', ''Check array/list indexing and bounds.'')]),
    (''KeyError'',
       [(''category'', ''Dictionary''), (''severity'', ''high''),
        (''general_advice'', ''Verify dictionary key existence before access.'')]),
    (''ZeroDivisionError'',
       [(''category'', ''Arithmetic''), (''severity'', ''high''),
        (''general_advice'', ''Add checks to prevent division by zero.'')]),
    (''FileNotFoundError'',
       [(''category'', ''File System''), (''severity'', ''high''),
        (''general_advice'', ''Verify file paths and permissions.'')]),
    (''MemoryError'',
       [(''category'', ''Resource''), (''severity'', ''critical''),
        (''general_advice'',
         ''Optimize memory usage, handle large data more efficiently.'')])]"

record classification =
  c_type :: string
  c_message :: string
  category :: string
  severity :: string
  general_advice :: string
  c_traceback :: string

text \<open>
  \<open>handled\<close> is the exception being handled when \<^verbatim>\<open>classify_error\<close> is called (what
  \<^verbatim>\<open>sys.exc_info()\<close> would show), which \<^verbatim>\<open>traceback.format_exc()\<close> reads; it need not be
  the argument \<open>error\<close>. The entries of the returned dictionary are evaluated in order:
  \<^verbatim>\<open>str(error)\<close> may raise, and then each of the three subscripts on \<^verbatim>\<open>error_info\<close> raises
  \<^verbatim>\<open>KeyError\<close> on a missing key. \<^verbatim>\<open>cls.ERROR_TYPES\<close> is read from the class at the call.
\<close>

definition classify_error ::
  "python \<Rightarrow> fault option \<Rightarrow> pyobj \<Rightarrow> fault + classification" where
  "classify_error py handled error =
     (let error_type = type_name_of error;
          error_info = dict_get (error_types py) error_type
                         [(''category'', ''Unknown''), (''severity'', ''low''),
                          (''general_advice'', ''Unexpected error occurred.'')]
      in case py_str error of
           Inl f \<Rightarrow> Inl f
         | Inr message \<Rightarrow>
        (case subscript error_info ''category'' of
           Inl e \<Rightarrow> Inl (builtin e)
         | Inr cat \<Rightarrow>
        (case subscript error_info ''severity'' of
           Inl e \<Rightarrow> Inl (builtin e)
         | Inr sev \<Rightarrow>
        (case subscript error_info ''general_advice'' of
           Inl e \<Rightarrow> Inl (builtin e)
         | Inr advice \<Rightarrow>
             Inr \<lparr>c_type = error_type, c_message = message, category = cat,
                  severity = sev, general_advice = advice,
                  c_traceback = format_exc py handled\<rparr>))))"

section \<open>The inspector (\<^verbatim>\<open>CodeInspector\<close>)\<close>

record inspector =
  verbose :: bool

subsection \<open>\<^verbatim>\<open>static_analysis\<close>\<close>

datatype static_report =
    Syntax_valid int int int int
  | Syntax_invalid string "int option" "int option"

text \<open>
  \<open>Syntax_valid\<close> carries \<^verbatim>\<open>function_count\<close>, \<^verbatim>\<open>class_count\<close>, \<^verbatim>\<open>import_count\<close> and
  \<^verbatim>\<open>complexity_score\<close>; \<open>Syntax_invalid\<close> carries the \<^verbatim>\<open>message\<close>, \<^verbatim>\<open>line\<close> and \<^verbatim>\<open>offset\<close>
  of \<^verbatim>\<open>syntax_error\<close>. Only \<^verbatim>\<open>SyntaxError\<close> is caught. The tree is walked with whatever
  \<^verbatim>\<open>ast.walk\<close> is bound to at the call.
\<close>

definition static_analysis ::
  "python \<Rightarrow> inspector \<Rightarrow> string \<Rightarrow> (exception, static_report) outcome" where
  "static_analysis py self code =
     (case ast_parse py code of
        Inr tree \<Rightarrow>
          Returns (Syntax_valid
            (int (length (filter (\<lambda>n. isinstance n [ast_FunctionDef]) (ast_walk py tree))))
            (int (length (filter (\<lambda>n. isinstance n [ast_ClassDef]) (ast_walk py tree))))
            (int (length (filter (\<lambda>n. isinstance n [ast_Import] \<or> isinstance n [ast_ImportFrom])
                            (ast_walk py tree))))
            (calculate_complexity_with (ast_walk py) tree))
      | Inl e \<Rightarrow>
          if inherits_SyntaxError e
          then Returns (Syntax_invalid (str_of e) (lineno e) (offset e))
          else Raises e)"

subsection \<open>\<^verbatim>\<open>runtime_execution\<close>\<close>

record error_dict =
  e_type :: string
  e_message :: string
  e_traceback :: string

record fix_suggestion =
  the_fix :: string
  example :: string
  code_hint :: string

record details =
  details_classification :: classification
  suggested_fixes :: "fix_suggestion list"

text \<open>
  The dictionary \<^verbatim>\<open>execution_result\<close>. The keys \<^verbatim>\<open>success\<close>, \<^verbatim>\<open>output\<close>, \<^verbatim>\<open>runtime\<close> and
  \<^verbatim>\<open>error\<close> are always present, the last three with Python's \<^verbatim>\<open>None\<close> as \<open>None\<close>;
  \<^verbatim>\<open>error_details\<close> is a key that \<^verbatim>\<open>comprehensive_inspection\<close> may add. There is no key
  for the text of \<^verbatim>\<open>stderr_capture\<close>.
\<close>

record execution_result =
  success :: bool
  the_output :: "string option"
  runtime :: "real option"
  error :: "error_dict option"
  error_details :: "details option"

text \<open>
  The \<^verbatim>\<open>except Exception as e\<close> clause of \<^verbatim>\<open>runtime_execution\<close>, entered before the
  dictionary was updated; \<open>n\<close> is the number of the call of \<^verbatim>\<open>time.time()\<close> it makes. An
  exception that derives from \<^verbatim>\<open>BaseException\<close> only is not caught. In the handler
  \<^verbatim>\<open>str(e)\<close> comes first and may raise, which leaves the function.
\<close>

definition runtime_except ::
  "python \<Rightarrow> fault \<Rightarrow> nat \<Rightarrow> (fault, execution_result) outcome" where
  "runtime_except py e n =
     (if inherits_Exception (header e)
      then (case str_call e of
              Inl f \<Rightarrow> Raises f
            | Inr message \<Rightarrow>
                Returns \<lparr>success = False, the_output = None,
                         runtime = Some (clock py n - clock py 0),
                         error = Some \<lparr>e_type = type_name (header e), e_message = message,
                                       e_traceback = format_exc py (Some e)\<rparr>,
                         error_details = None\<rparr>)
      else Raises e)"

text \<open>
  The \<^verbatim>\<open>timeout\<close> parameter is never read. When \<^verbatim>\<open>exec\<close> has completed, the elapsed time
  is taken (call 1 of the clock) and then \<^verbatim>\<open>stdout_capture.getvalue()\<close> is called, still
  inside the \<^verbatim>\<open>try\<close>: if that raises, the dictionary has not been updated and the handler
  runs (with call 2 of the clock).
\<close>

definition runtime_execution ::
  "python \<Rightarrow> inspector \<Rightarrow> string \<Rightarrow> real \<Rightarrow> (fault, execution_result) outcome" where
  "runtime_execution py self code timeout =
     (let start_time = clock py 0
      in case exec py code of
           Runs_forever \<Rightarrow> Never_returns
         | Ends stdout_capture stderr_text raised lib \<Rightarrow>
             (case raised of
                Some e \<Rightarrow> runtime_except py e 1
              | None \<Rightarrow>
                  (let execution_time = clock py 1 - start_time
                   in case getvalue stdout_capture of
                        Inr text \<Rightarrow>
                          Returns \<lparr>success = True, the_output = Some text,
                                   runtime = Some execution_time, error = None,
                                   error_details = None\<rparr>
                      | Inl e \<Rightarrow> runtime_except py (builtin e) 2)))"

subsection \<open>\<^verbatim>\<open>analyze_and_suggest_fix\<close>\<close>

definition analyze_and_suggest_fix :: "string \<Rightarrow> classification \<Rightarrow> fix_suggestion list" where
  \<open>analyze_and_suggest_fix code error_info =
     (let error_type = c_type error_info;
          suggestions =
            (if error_type = ''TypeError'' then
               [\<lparr>the_fix = ''Add type conversion or type checking'',
                 example = ''Ensure consistent types or use explicit type conversion'',
                 code_hint = ''if not isinstance(value, expected_type): value = type_conversion(value)''\<rparr>]
             else if error_type = ''ValueError'' then
               [\<lparr>the_fix = ''Validate input values'',
                 example = ''Add input validation before processing'',
                 code_hint = ''if not validate_condition(value): raise ValueError("Invalid input")''\<rparr>]
             else if error_type = ''IndexError'' then
               [\<lparr>the_fix = ''Add bounds checking'',
                 example = ''Check list length before indexing'',
                 code_hint = ''if index < len(my_list): value = my_list[index]''\<rparr>]
             else if error_type = ''KeyError'' then
               [\<lparr>the_fix = ''Use .get() method or check key existence'',
                 example = ''my_dict.get(key, default_value)'',
                 code_hint = ''value = my_dict.get(key, default_value)''\<rparr>]
             else if error_type = ''ZeroDivisionError'' then
               [\<lparr>the_fix = ''Add zero division check'',
                 example = ''if denominator != 0: result = numerator / denominator'',
                 code_hint = ''if denominator != 0: result = numerator / denominator else: handle_zero_division()''\<rparr>]
             else [])
      in if suggestions = []
         then suggestions @
              [\<lparr>the_fix = ''Review and debug code'',
                example = ''Carefully examine the code context and error message'',
                code_hint = ''# Requires manual inspection''\<rparr>]
         else suggestions)\<close>

subsection \<open>\<^verbatim>\<open>comprehensive_inspection\<close>\<close>

datatype static_section = Static static_report | Static_fault classification

datatype runtime_section = Execution execution_result | Runtime_fault classification

record report =
  static_analysis_section :: static_section
  runtime_analysis_section :: runtime_section

text \<open>
  The first \<^verbatim>\<open>try\<close> statement. Its handler calls \<^verbatim>\<open>classify_error\<close> while \<open>static_error\<close>
  is being handled; an exception raised inside the handler leaves the function.
\<close>

definition static_phase ::
  "python \<Rightarrow> inspector \<Rightarrow> string \<Rightarrow> (fault, static_section) outcome" where
  "static_phase py self code =
     (case static_analysis py self code of
        Returns r \<Rightarrow> Returns (Static r)
      | Never_returns \<Rightarrow> Never_returns
      | Raises static_error \<Rightarrow>
          if inherits_Exception static_error
          then (case classify_error py (Some (builtin static_error))
                       (Instance (builtin static_error)) of
                  Inr c \<Rightarrow> Returns (Static_fault c)
                | Inl f \<Rightarrow> Raises f)
          else Raises (builtin static_error))"

text \<open>
  The second \<^verbatim>\<open>try\<close> statement, which runs in the interpreter as the executed code has
  left it. \<open>runtime_handler\<close> is its \<^verbatim>\<open>except Exception\<close> clause; an exception raised
  inside it leaves the function. In the body, \<^verbatim>\<open>'error' in runtime_result\<close> is always
  true, and subscripting an \<^verbatim>\<open>error\<close> that is \<^verbatim>\<open>None\<close> would raise \<^verbatim>\<open>TypeError\<close>. The
  classifier is called with \<^verbatim>\<open>type(error_info['type'])(error_info['message'])\<close>, outside
  any handler.
\<close>

definition NoneType_not_subscriptable :: exception where
  "NoneType_not_subscriptable =
     \<lparr>type_name = ''TypeError'',
      str_of = '''NoneType' object is not subscriptable'',
      inherits_Exception = True, inherits_SyntaxError = False,
      lineno = None, offset = None\<rparr>"

definition runtime_handler :: "python \<Rightarrow> fault \<Rightarrow> (fault, runtime_section) outcome" where
  "runtime_handler py runtime_error =
     (if inherits_Exception (header runtime_error)
      then (case classify_error py (Some runtime_error) (Instance runtime_error) of
              Inr c \<Rightarrow> Returns (Runtime_fault c)
            | Inl f \<Rightarrow> Raises f)
      else Raises runtime_error)"

definition runtime_phase ::
  "python \<Rightarrow> inspector \<Rightarrow> string \<Rightarrow> (fault, runtime_section) outcome" where
  "runtime_phase py self code =
     (let py' = after_exec py code
      in case runtime_execution py self code 5.0 of
           Never_returns \<Rightarrow> Never_returns
         | Raises e \<Rightarrow> runtime_handler py' e
         | Returns runtime_result \<Rightarrow>
             if \<not> success runtime_result \<and> True
             then (case error runtime_result of
                     None \<Rightarrow> runtime_handler py' (builtin NoneType_not_subscriptable)
                   | Some error_info \<Rightarrow>
                       (case classify_error py' None
                               (type_of_str (e_type error_info) (e_message error_info)) of
                          Inl e \<Rightarrow> runtime_handler py' e
                        | Inr error_classification \<Rightarrow>
                            (let fix_suggestions =
                                   analyze_and_suggest_fix code error_classification
                             in Returns (Execution
                                  (runtime_result
                                     \<lparr>error_details :=
                                        Some \<lparr>details_classification = error_classification,
                                              suggested_fixes = fix_suggestions\<rparr>\<rparr>)))))
             else Returns (Execution runtime_result))"

definition comprehensive_inspection ::
  "python \<Rightarrow> inspector \<Rightarrow> string \<Rightarrow> (fault, report) outcome" where
  "comprehensive_inspection py self code =
     (case static_phase py self code of
        Never_returns \<Rightarrow> Never_returns
      | Raises e \<Rightarrow> Raises e
      | Returns static_analysis' \<Rightarrow>
          (case runtime_phase py self code of
             Never_returns \<Rightarrow> Never_returns
           | Raises e \<Rightarrow> Raises e
           | Returns runtime_result \<Rightarrow>
               Returns \<lparr>static_analysis_section = static_analysis',
                        runtime_analysis_section = runtime_result\<rparr>))"

section \<open>Sample sources\<close>

text \<open>
  The sources that the results below are evaluated on, with what CPython does on each
  of them (version 3.10 or later, the first to have \<^verbatim>\<open>ast.Match\<close>).
\<close>

text \<open>\<^verbatim>\<open>x = 1 + '5'\<close> parses; executing it raises \<^verbatim>\<open>TypeError\<close>.\<close>

definition scenario_A_source :: string where
  "scenario_A_source = ''x = 1 + '5'' @ [CHR 0x27]"

definition scenario_A_tree :: node where
  "scenario_A_tree =
     Node ast_Module
       [Node (ast_other ''Assign'')
          [Node (ast_other ''Name'') [Node (ast_other ''Store'') []],
           Node (ast_other ''BinOp'')
             [Node (ast_other ''Constant'') [], Node (ast_other ''Add'') [],
              Node (ast_other ''Constant'') []]]]"

definition TypeError_int_plus_str :: exception where
  "TypeError_int_plus_str =
     \<lparr>type_name = ''TypeError'',
      str_of = ''unsupported operand type(s) for +: 'int' and 'str'' @ [CHR 0x27],
      inherits_Exception = True, inherits_SyntaxError = False,
      lineno = None, offset = None\<rparr>"

text \<open>
  \<^verbatim>\<open>raise SystemExit\<close> parses; executing it raises \<^verbatim>\<open>SystemExit\<close>, which derives from
  \<^verbatim>\<open>BaseException\<close> and not from \<^verbatim>\<open>Exception\<close>.
\<close>

definition raise_SystemExit_source :: string where
  "raise_SystemExit_source = ''raise SystemExit''"

definition raise_SystemExit_tree :: node where
  "raise_SystemExit_tree =
     Node ast_Module
       [Node (ast_other ''Raise'')
          [Node (ast_other ''Name'') [Node (ast_other ''Load'') []]]]"

definition SystemExit :: exception where
  "SystemExit =
     \<lparr>type_name = ''SystemExit'', str_of = '''',
      inherits_Exception = False, inherits_SyntaxError = False,
      lineno = None, offset = None\<rparr>"

text \<open>\<^verbatim>\<open>while True: pass\<close> parses; its execution does not end.\<close>

definition while_True_source :: string where
  "while_True_source = ''while True: pass''"

definition while_True_tree :: node where
  "while_True_tree =
     Node ast_Module
       [Node ast_While [Node (ast_other ''Constant'') [], Node (ast_other ''Pass'') []]]"

text \<open>
  \<^verbatim>\<open>print("hi"); 1/0\<close> parses; executing it writes \<^verbatim>\<open>hi\<close> and a newline to
  \<^verbatim>\<open>sys.stdout\<close> and then raises \<^verbatim>\<open>ZeroDivisionError\<close>.
\<close>

definition print_then_divide_source :: string where
  \<open>print_then_divide_source = ''print("hi"); 1/0''\<close>

definition print_then_divide_tree :: node where
  "print_then_divide_tree =
     Node ast_Module
       [Node (ast_other ''Expr'')
          [Node (ast_other ''Call'')
             [Node (ast_other ''Name'') [Node (ast_other ''Load'') []],
              Node (ast_other ''Constant'') []]],
        Node (ast_other ''Expr'')
          [Node (ast_other ''BinOp'')
             [Node (ast_other ''Constant'') [], Node (ast_other ''Div'') [],
              Node (ast_other ''Constant'') []]]]"

definition ZeroDivisionError :: exception where
  "ZeroDivisionError =
     \<lparr>type_name = ''ZeroDivisionError'', str_of = ''division by zero'',
      inherits_Exception = True, inherits_SyntaxError = False,
      lineno = None, offset = None\<rparr>"

text \<open>
  \<^verbatim>\<open>x = 1\<close> followed by a NUL character: \<^verbatim>\<open>ast.parse\<close> and \<^verbatim>\<open>exec\<close> both refuse it with
  \<^verbatim>\<open>ValueError\<close>, which is not a \<^verbatim>\<open>SyntaxError\<close>, in CPython 3.10 and in 3.11 up to
  3.11.3. (Later versions give a \<^verbatim>\<open>SyntaxError\<close> here. In every version a source holding
  a lone surrogate makes \<^verbatim>\<open>ast.parse\<close> raise \<^verbatim>\<open>UnicodeEncodeError\<close>, and a source nested
  too deeply makes it raise \<^verbatim>\<open>MemoryError\<close> or \<^verbatim>\<open>RecursionError\<close>: none of them a
  \<^verbatim>\<open>SyntaxError\<close>.)
\<close>

definition null_byte_source :: string where
  "null_byte_source = ''x = 1'' @ [CHR 0x00]"

definition ValueError_null_bytes :: exception where
  "ValueError_null_bytes =
     \<lparr>type_name = ''ValueError'',
      str_of = ''source code string cannot contain null bytes'',
      inherits_Exception = True, inherits_SyntaxError = False,
      lineno = None, offset = None\<rparr>"

text \<open>
  \<^verbatim>\<open>import sys; sys.stdout.close()\<close> parses; executing it closes the buffer installed as
  \<^verbatim>\<open>sys.stdout\<close> and completes.
\<close>

definition close_stdout_source :: string where
  "close_stdout_source = ''import sys; sys.stdout.close()''"

definition close_stdout_tree :: node where
  "close_stdout_tree =
     Node ast_Module
       [Node ast_Import [Node (ast_other ''alias'') []],
        Node (ast_other ''Expr'')
          [Node (ast_other ''Call'')
             [Node (ast_other ''Attribute'')
                [Node (ast_other ''Attribute'')
                   [Node (ast_other ''Name'') [Node (ast_other ''Load'') []],
                    Node (ast_other ''Load'') []],
                 Node (ast_other ''Load'') []]]]]"

text \<open>
  The source
  \<^verbatim>\<open>class Bad(Exception):
    def __str__(self):
        raise self
raise Bad()\<close>
  parses; executing it raises an instance of \<^verbatim>\<open>Bad\<close>, on which \<^verbatim>\<open>str()\<close> raises that
  instance again.
\<close>

definition Bad_source :: string where
  "Bad_source =
     ''class Bad(Exception):'' @ [CHR 0x0A] @
     ''    def __str__(self):'' @ [CHR 0x0A] @
     ''        raise self'' @ [CHR 0x0A] @
     ''raise Bad()''"

definition Bad_tree :: node where
  "Bad_tree =
     Node ast_Module
       [Node ast_ClassDef
          [Node (ast_other ''Name'') [Node (ast_other ''Load'') []],
           Node ast_FunctionDef
             [Node (ast_other ''arguments'') [Node (ast_other ''arg'') []],
              Node (ast_other ''Raise'')
                [Node (ast_other ''Name'') [Node (ast_other ''Load'') []]]]],
        Node (ast_other ''Raise'')
          [Node (ast_other ''Call'')
             [Node (ast_other ''Name'') [Node (ast_other ''Load'') []]]]]"

definition Bad :: fault where
  "Bad =
     Fault \<lparr>type_name = ''Bad'', str_of = '''',
            inherits_Exception = True, inherits_SyntaxError = False,
            lineno = None, offset = None\<rparr>
       Raises_itself"

text \<open>
  The source
  \<^verbatim>\<open>import ast
ast.walk = lambda tree: iter(())
if 1: pass\<close>
  parses; executing it binds \<^verbatim>\<open>ast.walk\<close>, in the module that the inspector uses, to a
  function that yields no node, and completes.
\<close>

definition rebind_walk_source :: string where
  "rebind_walk_source =
     ''import ast'' @ [CHR 0x0A] @
     ''ast.walk = lambda tree: iter(())'' @ [CHR 0x0A] @
     ''if 1: pass''"

definition rebind_walk_tree :: node where
  "rebind_walk_tree =
     Node ast_Module
       [Node ast_Import [Node (ast_other ''alias'') []],
        Node (ast_other ''Assign'')
          [Node (ast_other ''Attribute'')
             [Node (ast_other ''Name'') [Node (ast_other ''Load'') []],
              Node (ast_other ''Store'') []],
           Node (ast_other ''Lambda'')
             [Node (ast_other ''arguments'') [Node (ast_other ''arg'') []],
              Node (ast_other ''Call'')
                [Node (ast_other ''Name'') [Node (ast_other ''Load'') []],
                 Node (ast_other ''Tuple'') [Node (ast_other ''Load'') []]]]],
        Node ast_If [Node (ast_other ''Constant'') [], Node (ast_other ''Pass'') []]]"

text \<open>
  The library as loaded: the parser restricted to these sources, the library's own
  \<^verbatim>\<open>ast.walk\<close>, and the table of the class body. The empty source parses to an empty
  module; a source outside the table is answered in the same way, and no result below
  evaluates one.
\<close>

definition cpython_library :: library where
  "cpython_library =
     \<lparr>ast_parse = (\<lambda>code.
        if code = scenario_A_source then Inr scenario_A_tree
        else if code = raise_SystemExit_source then Inr raise_SystemExit_tree
        else if code = while_True_source then Inr while_True_tree
        else if code = print_then_divide_source then Inr print_then_divide_tree
        else if code = null_byte_source then Inl ValueError_null_bytes
        else if code = close_stdout_source then Inr close_stdout_tree
        else if code = Bad_source then Inr Bad_tree
        else if code = rebind_walk_source then Inr rebind_walk_tree
        else Inr (Node ast_Module [])),
      ast_walk = walk,
      error_types = ERROR_TYPES\<rparr>"

text \<open>
  The interpreter with that library, restricted to these sources. Every execution but
  that of the last source leaves the library as it was. \<^verbatim>\<open>traceback.format_exc()\<close> gives
  \<^verbatim>\<open>NoneType: None\<close> when no exception is being handled; otherwise its text ends with the
  exception's type and message (the stack frames before that line, which name the
  files of the installation, are left out; for an exception whose \<^verbatim>\<open>str()\<close> fails the
  message is left out as well). The clock readings are arbitrary. The empty source runs
  without effect; a source outside the table is answered in the same way, and no result
  below evaluates one.
\<close>

definition cpython_samples :: python where
  "cpython_samples =
     \<lparr>ast_parse = ast_parse cpython_library,
      ast_walk = ast_walk cpython_library,
      error_types = error_types cpython_library,
      exec = (\<lambda>code.
        if code = scenario_A_source
          then Ends (Open '''') '''' (Some (builtin TypeError_int_plus_str)) cpython_library
        else if code = raise_SystemExit_source
          then Ends (Open '''') '''' (Some (builtin SystemExit)) cpython_library
        else if code = while_True_source then Runs_forever
        else if code = print_then_divide_source
          then Ends (Open (''hi'' @ [CHR 0x0A])) '''' (Some (builtin ZeroDivisionError))
                 cpython_library
        else if code = null_byte_source
          then Ends (Open '''') '''' (Some (builtin ValueError_null_bytes)) cpython_library
        else if code = close_stdout_source then Ends Closed '''' None cpython_library
        else if code = Bad_source then Ends (Open '''') '''' (Some Bad) cpython_library
        else if code = rebind_walk_source
          then Ends (Open '''') '''' None (cpython_library\<lparr>ast_walk := (\<lambda>tree. [])\<rparr>)
        else Ends (Open '''') '''' None cpython_library),
      format_exc = (\<lambda>handled.
        case handled of
          None \<Rightarrow> ''NoneType: None'' @ [CHR 0x0A]
        | Some f \<Rightarrow> ''Traceback (most recent call last):'' @ [CHR 0x0A]
                    @ type_name (header f) @ '': '' @ str_of (header f) @ [CHR 0x0A]),
      clock = (\<lambda>n. if n = 0 then 100 else if n = 1 then 100.125 else 100.25)\<rparr>"

text \<open>
  \<^verbatim>\<open>x = (\<close> does not parse: \<^verbatim>\<open>ast.parse\<close> raises a \<^verbatim>\<open>SyntaxError\<close> at line 1, offset 5.
  \<open>with_unclosed_paren py\<close> is \<open>py\<close> with this source added to the table of its parser.
\<close>

definition unclosed_paren_source :: string where
  "unclosed_paren_source = ''x = (''"

definition SyntaxError_unclosed_paren :: "string \<Rightarrow> exception" where
  "SyntaxError_unclosed_paren filename =
     \<lparr>type_name = ''SyntaxError'',
      str_of = '''(' was never closed ('' @ filename @ '', line 1)'',
      inherits_Exception = True, inherits_SyntaxError = True,
      lineno = Some 1, offset = Some 5\<rparr>"

definition with_unclosed_paren :: "python \<Rightarrow> python" where
  "with_unclosed_paren py =
     py\<lparr>ast_parse := (ast_parse py)
            (unclosed_paren_source := Inl (SyntaxError_unclosed_paren ''<unknown>''))\<rparr>"

section \<open>Properties of the complexity score\<close>

lemma weight_op_node: "weight (op_node op) = 0"
  by (cases op) (simp_all add: counted_statement_def)

lemma complexity_step_weight:
  "complexity_step acc n + sum_list (map weight (iter_child_nodes n)) = acc + weight n"
  by (cases n) (simp_all add: counted_statement_def weight_op_node)

lemma foldl_walk_todo:
  "foldl complexity_step acc (walk_todo todo) = acc + sum_list (map weight todo)"
proof (induction todo arbitrary: acc rule: walk_todo.induct)
  case 1
  show ?case by simp
next
  case (2 n todo)
  have "foldl complexity_step acc (walk_todo (n # todo))
          = foldl complexity_step (complexity_step acc n) (walk_todo (todo @ iter_child_nodes n))"
    by simp
  also have "\<dots> = complexity_step acc n + sum_list (map weight (todo @ iter_child_nodes n))"
    by (rule "2.IH")
  also have "\<dots> = (complexity_step acc n + sum_list (map weight (iter_child_nodes n)))
                    + sum_list (map weight todo)"
    by simp
  also have "\<dots> = acc + sum_list (map weight (n # todo))"
    by (simp only: complexity_step_weight) simp
  finally show ?case .
qed

lemma calculate_complexity_weight: "calculate_complexity tree = 1 + weight tree"
  unfolding calculate_complexity_def walk_def foldl_walk_todo by simp

lemma int_sum_list_map: "int (sum_list (map f xs)) = sum_list (map (\<lambda>x. int (f x)) xs)"
  by (induction xs) simp_all

lemma sum_list_map_cong_add:
  assumes "\<And>x. x \<in> set xs \<Longrightarrow> h x = f x + g x"
  shows "sum_list (map h xs) = sum_list (map f xs) + (sum_list (map g xs) :: int)"
  using assms by (induction xs) simp_all

lemma weight_count:
  "weight t = int (count_nodes counted_statement t) + boolop_extra t"
proof (induction t)
  case (Node c cs)
  have "sum_list (map weight cs)
          = sum_list (map (\<lambda>x. int (count_nodes counted_statement x)) cs)
            + sum_list (map boolop_extra cs)"
    by (rule sum_list_map_cong_add) (rule Node.IH)
  then show ?case by (simp add: int_sum_list_map)
next
  case (BoolOp op vs)
  have ops: "\<not> counted_statement (op_node op)"
    by (cases op) (simp_all add: counted_statement_def)
  have bo: "\<not> counted_statement (BoolOp op vs)"
    by (simp add: counted_statement_def)
  have "sum_list (map weight vs)
          = sum_list (map (\<lambda>x. int (count_nodes counted_statement x)) vs)
            + sum_list (map boolop_extra vs)"
    by (rule sum_list_map_cong_add) (rule BoolOp.IH)
  then show ?case using ops bo by (simp add: int_sum_list_map)
qed

lemma sum_list_nonneg_int:
  assumes "\<And>x. x \<in> set xs \<Longrightarrow> 0 \<le> f x"
  shows "(0::int) \<le> sum_list (map f xs)"
  using assms by (induction xs) simp_all

lemma weight_nonneg: "parser_shaped t \<Longrightarrow> 0 \<le> weight t"
proof (induction t)
  case (Node c cs)
  have "0 \<le> sum_list (map weight cs)"
    using Node by (intro sum_list_nonneg_int) (simp add: list_all_iff)
  then show ?case by simp
next
  case (BoolOp op vs)
  have "0 \<le> sum_list (map weight vs)"
    using BoolOp by (intro sum_list_nonneg_int) (simp add: list_all_iff)
  moreover have "2 \<le> length vs" using BoolOp.prems by simp
  ultimately show ?case by simp
qed

lemma weights_nonneg: "list_all parser_shaped ns \<Longrightarrow> 0 \<le> sum_list (map weight ns)"
  by (intro sum_list_nonneg_int) (simp add: list_all_iff weight_nonneg)

lemma sum_list_segments:
  "sum_list (map f cs)
     = sum_list (map f (take i cs)) + sum_list (map f (take n (drop i cs)))
       + (sum_list (map f (drop (i + n) cs)) :: int)"
proof -
  have "drop (i + n) cs = drop n (drop i cs)"
    by (simp add: add.commute)
  then have "cs = take i cs @ take n (drop i cs) @ drop (i + n) cs"
    by (simp only: append_take_drop_id)
  then have "sum_list (map f cs)
               = sum_list (map f (take i cs @ take n (drop i cs) @ drop (i + n) cs))"
    by simp
  then show ?thesis by (simp only: map_append sum_list_append add.assoc)
qed

lemma weight_wrap_children:
  "sum_list (map weight (wrap_children i n k pre post cs))
     = sum_list (map weight cs) + weight (Node k []) + sum_list (map weight pre)
       + sum_list (map weight post)"
  unfolding wrap_children_def
  by (simp add: sum_list_segments [of weight cs i n] counted_statement_def)

lemma sum_list_update:
  assumes "p < length cs"
  shows "sum_list (map f (cs[p := x])) = sum_list (map f cs) - f (cs ! p) + (f x :: int)"
proof -
  have "cs = take p cs @ cs ! p # drop (Suc p) cs"
    using assms by (rule id_take_nth_drop)
  then have 1: "sum_list (map f cs)
      = sum_list (map f (take p cs)) + f (cs ! p) + sum_list (map f (drop (Suc p) cs))"
    by (metis add.assoc list.simps(9) map_append sum_list.Cons sum_list_append)
  have "cs[p := x] = take p cs @ x # drop (Suc p) cs"
    using assms by (rule upd_conv_take_nth_drop)
  then have 2: "sum_list (map f (cs[p := x]))
      = sum_list (map f (take p cs)) + f x + sum_list (map f (drop (Suc p) cs))"
    by simp
  from 1 2 show ?thesis by simp
qed

lemma weight_add_construct:
  assumes "list_all parser_shaped pre" and "list_all parser_shaped post"
  shows "weight t \<le> weight (add_construct path (wrap_children i n k pre post) t)"
proof (induction path arbitrary: t)
  case Nil
  show ?case
  proof (cases t)
    case (Node c cs)
    have "0 \<le> weight (Node k [])" by simp
    with weights_nonneg [OF assms(1)] weights_nonneg [OF assms(2)]
    show ?thesis using Node by (simp add: weight_wrap_children counted_statement_def)
  next
    case (BoolOp op vs)
    then show ?thesis by simp
  qed
next
  case (Cons p ps)
  show ?case
  proof (cases t)
    case (Node c cs)
    show ?thesis
    proof (cases "p < length cs")
      case True
      with Node Cons [of "cs ! p"] show ?thesis
        by (simp add: sum_list_update counted_statement_def)
    next
      case False
      with Node show ?thesis by simp
    qed
  next
    case (BoolOp op vs)
    show ?thesis
    proof (cases "p < length vs")
      case True
      with BoolOp Cons [of "vs ! p"] show ?thesis by (simp add: sum_list_update)
    next
      case False
      with BoolOp show ?thesis by simp
    qed
  qed
qed

lemma count_nodes_zero_weaken:
  assumes "\<And>n. Q n \<Longrightarrow> P n"
  shows "count_nodes P t = 0 \<Longrightarrow> count_nodes Q t = 0"
proof (induction t)
  case (Node c cs)
  then show ?case using assms [of "Node c cs"] by (auto split: if_splits)
next
  case (BoolOp op vs)
  then show ?case using assms [of "BoolOp op vs"] assms [of "op_node op"]
    by (auto split: if_splits)
qed

lemma sum_list_all_zero:
  assumes "\<And>x. x \<in> set xs \<Longrightarrow> f x = (0::int)"
  shows "sum_list (map f xs) = 0"
  using assms by (induction xs) simp_all

lemma boolop_extra_none: "count_nodes is_BoolOp t = 0 \<Longrightarrow> boolop_extra t = 0"
proof (induction t)
  case (Node c cs)
  then have "sum_list (map boolop_extra cs) = 0"
    by (intro sum_list_all_zero) simp
  then show ?case by simp
next
  case (BoolOp op vs)
  then show ?case by simp
qed

lemma count_nodes_zero_or:
  "count_nodes P t = 0 \<and> count_nodes Q t = 0 \<Longrightarrow> count_nodes (\<lambda>m. P m \<or> Q m) t = 0"
  by (induction t) (auto split: if_splits)

subsection \<open>The score is a count over the tree\<close>

text \<open>
  C7 (as amended). For every tree the parser returns, the complexity score equals 1 plus
  one for each node that is an \<^verbatim>\<open>If\<close>, \<^verbatim>\<open>While\<close>, \<^verbatim>\<open>For\<close>, \<^verbatim>\<open>Try\<close>, \<^verbatim>\<open>ExceptHandler\<close>,
  \<^verbatim>\<open>AsyncFor\<close>, \<^verbatim>\<open>AsyncWith\<close> or \<^verbatim>\<open>Match\<close> statement, plus \<open>n - 1\<close> for each \<^verbatim>\<open>BoolOp\<close>
  of \<open>n\<close> operands, whatever the order in which the walk meets the nodes. A \<^verbatim>\<open>match\<close>
  statement counts once however many arms it has, a \<^verbatim>\<open>try\<close> statement counts once on top
  of its \<^verbatim>\<open>except\<close> clauses, and an \<^verbatim>\<open>async with\<close> counts although it does not branch.
\<close>

theorem complexity_counts_listed_nodes:
  "calculate_complexity tree
     = 1 + int (count_nodes counted_statement tree) + boolop_extra tree"
  by (simp add: calculate_complexity_weight weight_count)

text \<open>
  C7 (as stated) fails: a \<^verbatim>\<open>match\<close> statement with two arms scores 2 (one for the
  statement), where one per pattern-match arm gives 3.
\<close>

theorem complexity_match_arms_counterexample:
  "calculate_complexity match_two_arms_tree = 2 \<and> spec_complexity match_two_arms_tree = 3"
  by (simp add: calculate_complexity_def walk_def match_two_arms_tree_def
      spec_complexity_def spec_decision_point_def)

subsection \<open>Straight-line programs and monotonicity\<close>

text \<open>
  C8 (as amended). A program with no branch construct and no \<^verbatim>\<open>async with\<close> statement has
  complexity 1; and adding a construct to a program (inserting it among the children of
  any node, or wrapping existing children in it) never decreases the score, the new
  construct's own parts being trees as the parser builds them. This holds for a new node
  of any class, so for every conditional, loop and exception construct.
\<close>

theorem complexity_straight_line_and_monotone:
  "(count_nodes branch_construct t = 0 \<and> count_nodes is_AsyncWith t = 0
      \<longrightarrow> calculate_complexity t = 1)
   \<and> (list_all parser_shaped pre \<and> list_all parser_shaped post
      \<longrightarrow> calculate_complexity t
            \<le> calculate_complexity (add_construct path (wrap_children i n k pre post) t))"
proof (intro conjI impI)
  assume a: "count_nodes branch_construct t = 0 \<and> count_nodes is_AsyncWith t = 0"
  have "counted_statement m \<Longrightarrow> branch_construct m \<or> is_AsyncWith m" for m
    by (cases m) (auto simp: counted_statement_def is_AsyncWith_def)
  then have "count_nodes (\<lambda>m. branch_construct m \<or> is_AsyncWith m) t = 0
               \<Longrightarrow> count_nodes counted_statement t = 0"
    by (rule count_nodes_zero_weaken)
  moreover have "count_nodes (\<lambda>m. branch_construct m \<or> is_AsyncWith m) t = 0"
    using a by (rule count_nodes_zero_or)
  moreover have "count_nodes is_BoolOp t = 0"
  proof -
    have "is_BoolOp m \<Longrightarrow> branch_construct m" for m
      by (cases m) simp_all
    then have "count_nodes branch_construct t = 0 \<Longrightarrow> count_nodes is_BoolOp t = 0"
      by (rule count_nodes_zero_weaken)
    with a show ?thesis by simp
  qed
  ultimately show "calculate_complexity t = 1"
    by (simp add: calculate_complexity_weight weight_count boolop_extra_none)
next
  assume "list_all parser_shaped pre \<and> list_all parser_shaped post"
  then show "calculate_complexity t
               \<le> calculate_complexity (add_construct path (wrap_children i n k pre post) t)"
    by (simp add: calculate_complexity_weight weight_add_construct)
qed

text \<open>
  Witness for C8: the program \<^verbatim>\<open>x = 1\<close> scores 1, and adding \<^verbatim>\<open>if 1: pass\<close> after the
  assignment does not lower the score.
\<close>

theorem complexity_straight_line_and_monotone_witness:
  "count_nodes branch_construct assign_tree = 0 \<and> count_nodes is_AsyncWith assign_tree = 0
   \<and> calculate_complexity assign_tree = 1
   \<and> list_all parser_shaped [Node (ast_other ''Constant'') []]
   \<and> list_all parser_shaped [Node (ast_other ''Pass'') []]
   \<and> calculate_complexity assign_tree
       \<le> calculate_complexity
            (add_construct []
               (wrap_children 1 0 ast_If [Node (ast_other ''Constant'') []]
                  [Node (ast_other ''Pass'') []])
               assign_tree)"
proof -
  have h1: "count_nodes branch_construct assign_tree = 0 \<and> count_nodes is_AsyncWith assign_tree = 0"
    by (simp add: assign_tree_def is_AsyncWith_def)
  have h2: "list_all parser_shaped [Node (ast_other ''Constant'') []]
            \<and> list_all parser_shaped [Node (ast_other ''Pass'') []]"
    by simp
  from complexity_straight_line_and_monotone
         [of assign_tree "[Node (ast_other ''Constant'') []]" "[Node (ast_other ''Pass'') []]"
             "[]" 1 0 ast_If]
       h1 h2
  show ?thesis by blast
qed

text \<open>
  C8 (as stated) fails: an \<^verbatim>\<open>async def\<close> whose body is one \<^verbatim>\<open>async with\<close> block has no
  branch construct of any kind, and scores 2.
\<close>

theorem complexity_async_with_counterexample:
  "count_nodes branch_construct async_with_tree = 0 \<and> calculate_complexity async_with_tree = 2"
  by (simp add: calculate_complexity_def walk_def async_with_tree_def)


section \<open>Properties of error classification\<close>

lemmas sample_defs =
  cpython_samples_def cpython_library_def scenario_A_source_def raise_SystemExit_source_def
  while_True_source_def print_then_divide_source_def null_byte_source_def
  close_stdout_source_def Bad_source_def rebind_walk_source_def

lemma calculate_complexity_with_walk: "calculate_complexity_with walk tree = calculate_complexity tree"
  by (simp add: calculate_complexity_with_def calculate_complexity_def)

lemma str_call_builtin: "str_call (builtin e) = Inr (str_of e)"
  by (simp add: str_call_def builtin_def)

lemma header_builtin: "header (builtin e) = e"
  by (simp add: builtin_def)



lemma classify_error_fallback:
  assumes "error_types py = ERROR_TYPES" and "py_str x = Inr message"
    and "type_name_of x \<notin> set (map fst ERROR_TYPES)"
  shows "classify_error py handled x =
       Inr \<lparr>c_type = type_name_of x, c_message = message, category = ''Unknown'',
            severity = ''low'', general_advice = ''Unexpected error occurred.'',
            c_traceback = format_exc py handled\<rparr>"
proof -
  from assms(3) have "map_of ERROR_TYPES (type_name_of x) = None"
    by (simp add: map_of_eq_None_iff)
  with assms(1,2) show ?thesis
    by (simp add: classify_error_def dict_get_def subscript_def)
qed






section \<open>Properties of \<^verbatim>\<open>static_analysis\<close>\<close>


text \<open>
  With the library's own \<^verbatim>\<open>ast.walk\<close>, the score in the report is the one that the
  complexity results above are about.
\<close>

lemma static_analysis_complexity_score:
  assumes "ast_parse py code = Inr tree" and "ast_walk py = walk"
  shows "\<exists>f c i. static_analysis py self code
                    = Returns (Syntax_valid f c i (calculate_complexity tree))"
  using assms by (simp add: static_analysis_def calculate_complexity_with_walk)

text \<open>
  C5 (as amended). For every source on which the parser raises a \<^verbatim>\<open>SyntaxError\<close>,
  \<^verbatim>\<open>static_analysis\<close> returns a report with \<^verbatim>\<open>syntax_valid\<close> false together with that error's
  message, line and offset. \<^verbatim>\<open>static_analysis\<close> raises to its caller exactly when the parser
  raises an exception that is not a \<^verbatim>\<open>SyntaxError\<close>; it always returns or raises.
\<close>

theorem static_analysis_syntax_error_report:
  "(ast_parse py code = Inl e \<and> inherits_SyntaxError e \<longrightarrow>
      static_analysis py self code = Returns (Syntax_invalid (str_of e) (lineno e) (offset e)))
   \<and> (static_analysis py self code = Raises e
        \<longleftrightarrow> ast_parse py code = Inl e \<and> \<not> inherits_SyntaxError e)
   \<and> static_analysis py self code \<noteq> Never_returns"
  by (auto simp: static_analysis_def split: sum.splits)

text \<open>
  Witness for C5: the source \<^verbatim>\<open>x = (\<close>, whose \<^verbatim>\<open>SyntaxError\<close> is at line 1, offset 5.
\<close>

theorem static_analysis_syntax_error_report_witness:
  "ast_parse (with_unclosed_paren cpython_samples) unclosed_paren_source
     = Inl (SyntaxError_unclosed_paren ''<unknown>'')
   \<and> inherits_SyntaxError (SyntaxError_unclosed_paren ''<unknown>'')
   \<and> static_analysis (with_unclosed_paren cpython_samples) \<lparr>verbose = False\<rparr>
         unclosed_paren_source
       = Returns (Syntax_invalid (str_of (SyntaxError_unclosed_paren ''<unknown>''))
                    (Some 1) (Some 5))"
proof -
  have h: "ast_parse (with_unclosed_paren cpython_samples) unclosed_paren_source
             = Inl (SyntaxError_unclosed_paren ''<unknown>'')
           \<and> inherits_SyntaxError (SyntaxError_unclosed_paren ''<unknown>'')"
    by (simp add: with_unclosed_paren_def SyntaxError_unclosed_paren_def)
  from static_analysis_syntax_error_report
         [of "with_unclosed_paren cpython_samples" unclosed_paren_source
             "SyntaxError_unclosed_paren ''<unknown>''" "\<lparr>verbose = False\<rparr>"] h
  have "static_analysis (with_unclosed_paren cpython_samples) \<lparr>verbose = False\<rparr>
          unclosed_paren_source
        = Returns (Syntax_invalid (str_of (SyntaxError_unclosed_paren ''<unknown>''))
                     (lineno (SyntaxError_unclosed_paren ''<unknown>''))
                     (offset (SyntaxError_unclosed_paren ''<unknown>'')))"
    by blast
  with h show ?thesis by (simp add: SyntaxError_unclosed_paren_def)
qed

text \<open>
  C5 (as stated) fails: on a source holding a NUL character the parser raises
  \<^verbatim>\<open>ValueError\<close>, which \<^verbatim>\<open>except SyntaxError\<close> does not catch, and \<^verbatim>\<open>static_analysis\<close> raises
  it to its caller.
\<close>

theorem static_analysis_null_byte_counterexample:
  "static_analysis cpython_samples \<lparr>verbose = False\<rparr> null_byte_source
     = Raises ValueError_null_bytes"
  by (simp add: static_analysis_def sample_defs ValueError_null_bytes_def)

section \<open>Properties of \<^verbatim>\<open>runtime_execution\<close>\<close>

lemma runtime_except_Returns:
  assumes "inherits_Exception (header f)" and "on_str f = Returns_text"
  shows "runtime_except py f n =
     Returns \<lparr>success = False, the_output = None,
              runtime = Some (clock py n - clock py 0),
              error = Some \<lparr>e_type = type_name (header f), e_message = str_of (header f),
                            e_traceback = format_exc py (Some f)\<rparr>,
              error_details = None\<rparr>"
  using assms by (simp add: runtime_except_def str_call_def)

lemma runtime_execution_Ends:
  assumes "exec py code = Ends out err raised lib"
  shows "runtime_execution py self code timeout =
     (case raised of
        Some f \<Rightarrow> runtime_except py f 1
      | None \<Rightarrow>
          (case out of
             Open text \<Rightarrow>
               Returns \<lparr>success = True, the_output = Some text,
                        runtime = Some (clock py 1 - clock py 0), error = None,
                        error_details = None\<rparr>
           | Closed \<Rightarrow> runtime_except py (builtin closed_file_error) 2))"
  using assms by (simp add: runtime_execution_def split: option.splits stringio.splits)

lemma runtime_except_closed_file:
  "runtime_except py (builtin closed_file_error) n =
     Returns \<lparr>success = False, the_output = None,
              runtime = Some (clock py n - clock py 0),
              error = Some \<lparr>e_type = ''ValueError'',
                            e_message = ''I/O operation on closed file'',
                            e_traceback = format_exc py (Some (builtin closed_file_error))\<rparr>,
              error_details = None\<rparr>"
  by (simp add: runtime_except_def str_call_builtin header_builtin closed_file_error_def)

lemma runtime_execution_ignores_timeout:
  "runtime_execution py self code timeout = runtime_execution py self code timeout'"
  by (simp add: runtime_execution_def)

text \<open>
  C3 (the code at the failing input). The execution of \<^verbatim>\<open>while True: pass\<close> does not end,
  and with a timeout of 5 seconds neither \<^verbatim>\<open>runtime_execution\<close> nor
  \<^verbatim>\<open>comprehensive_inspection\<close> returns: no outcome with a \<^verbatim>\<open>Timeout\<close> fault is produced.
\<close>

theorem while_True_never_returns:
  "runtime_execution cpython_samples \<lparr>verbose = False\<rparr> while_True_source 5 = Never_returns
   \<and> comprehensive_inspection cpython_samples \<lparr>verbose = False\<rparr> while_True_source
       = Never_returns"
  by (simp add: comprehensive_inspection_def static_phase_def static_analysis_def
      runtime_phase_def runtime_execution_def runtime_handler_def sample_defs)




text \<open>
  A source that closes \<^verbatim>\<open>sys.stdout\<close> completes, and the outcome reports a failure: the
  \<^verbatim>\<open>ValueError\<close> of \<^verbatim>\<open>getvalue()\<close>.
\<close>

lemma runtime_execution_close_stdout:
  "runtime_execution cpython_samples \<lparr>verbose = False\<rparr> close_stdout_source 5
     = Returns \<lparr>success = False, the_output = None, runtime = Some (1 / 4),
                error = Some \<lparr>e_type = ''ValueError'',
                              e_message = ''I/O operation on closed file'',
                              e_traceback =
                                format_exc cpython_samples (Some (builtin closed_file_error))\<rparr>,
                error_details = None\<rparr>"
  by (simp add: runtime_execution_def runtime_except_closed_file sample_defs)


section \<open>Properties of \<^verbatim>\<open>comprehensive_inspection\<close>\<close>

lemma after_exec_Ends:
  assumes "exec py code = Ends out err raised lib"
  shows "after_exec py code
           = py\<lparr>ast_parse := ast_parse lib, ast_walk := ast_walk lib,
                error_types := error_types lib\<rparr>"
  using assms by (simp add: after_exec_def)




text \<open>
  Whatever fault the executed code raises, the classifier of the runtime phase sees an
  instance of \<^verbatim>\<open>str\<close>: the classification attached to the report is the fallback one.
\<close>

lemma runtime_fault_classified_as_str:
  assumes "exec py code = Ends out err (Some f) lib"
    and "error_types lib = ERROR_TYPES"
    and "inherits_Exception (header f)" and "on_str f = Returns_text"
  shows "\<exists>result d.
           runtime_phase py self code = Returns (Execution result)
           \<and> error_details result = Some d
           \<and> c_type (details_classification d) = ''str''
           \<and> category (details_classification d) = ''Unknown''
           \<and> severity (details_classification d) = ''low''
           \<and> length (suggested_fixes d) = 1"
proof -
  let ?py' = "after_exec py code"
  let ?x = "type_of_str (type_name (header f)) (str_of (header f))"
  have table: "error_types ?py' = ERROR_TYPES"
    by (simp add: after_exec_Ends [OF assms(1)] assms(2))
  have s: "py_str ?x = Inr (str_of (header f))"
    by (simp add: type_of_str_def)
  have "type_name_of ?x \<notin> set (map fst ERROR_TYPES)"
    by (simp add: type_of_str_def ERROR_TYPES_def)
  from classify_error_fallback [OF table s this, of None] show ?thesis
    by (simp add: runtime_phase_def runtime_execution_Ends [OF assms(1)]
        runtime_except_Returns [OF assms(3,4)] analyze_and_suggest_fix_def type_of_str_def)
qed




text \<open>
  The same happens with an exception that does derive from \<^verbatim>\<open>Exception\<close> when its
  \<^verbatim>\<open>__str__\<close> raises: \<^verbatim>\<open>str(e)\<close> raises in the handler of \<^verbatim>\<open>runtime_execution\<close>, and
  \<^verbatim>\<open>str(error)\<close> raises again in \<^verbatim>\<open>classify_error\<close>, called from the handler of
  \<^verbatim>\<open>comprehensive_inspection\<close>.
\<close>

lemma comprehensive_inspection_Bad:
  "runtime_execution cpython_samples \<lparr>verbose = False\<rparr> Bad_source 5 = Raises Bad
   \<and> comprehensive_inspection cpython_samples \<lparr>verbose = False\<rparr> Bad_source = Raises Bad"
  by (simp add: comprehensive_inspection_def static_phase_def static_analysis_def
      runtime_phase_def runtime_execution_def runtime_except_def runtime_handler_def
      classify_error_def str_call_def Let_def sample_defs Bad_def)

text \<open>
  C2 (the code at the failing input). For \<^verbatim>\<open>x = 1 + '5'\<close> the runtime section has
  \<^verbatim>\<open>success\<close> false and carries the \<^verbatim>\<open>TypeError\<close>, and one suggestion is attached; but the
  classifier is handed \<^verbatim>\<open>type('TypeError')(message)\<close>, a \<^verbatim>\<open>str\<close>, so the classification has
  type \<^verbatim>\<open>str\<close> and category \<^verbatim>\<open>Unknown\<close>, not \<^verbatim>\<open>Type Mismatch\<close>, and the suggestion is the
  generic one.
\<close>

theorem scenario_A_classified_Unknown:
  "comprehensive_inspection cpython_samples \<lparr>verbose = False\<rparr> scenario_A_source =
     Returns
       \<lparr>static_analysis_section = Static (Syntax_valid 0 0 0 1),
        runtime_analysis_section =
          Execution
            \<lparr>success = False, the_output = None, runtime = Some (1 / 8),
             error = Some \<lparr>e_type = ''TypeError'',
                           e_message = str_of TypeError_int_plus_str,
                           e_traceback =
                             format_exc cpython_samples
                               (Some (builtin TypeError_int_plus_str))\<rparr>,
             error_details =
               Some \<lparr>details_classification =
                       \<lparr>c_type = ''str'', c_message = str_of TypeError_int_plus_str,
                        category = ''Unknown'', severity = ''low'',
                        general_advice = ''Unexpected error occurred.'',
                        c_traceback = format_exc cpython_samples None\<rparr>,
                     suggested_fixes =
                       [\<lparr>the_fix = ''Review and debug code'',
                         example = ''Carefully examine the code context and error message'',
                         code_hint = ''# Requires manual inspection''\<rparr>]\<rparr>\<rparr>\<rparr>"
  by (simp add: comprehensive_inspection_def static_phase_def static_analysis_def
      runtime_phase_def runtime_execution_def runtime_except_def runtime_handler_def
      after_exec_def str_call_builtin header_builtin sample_defs
      TypeError_int_plus_str_def scenario_A_tree_def calculate_complexity_with_def walk_def
      classify_error_def dict_get_def subscript_def type_of_str_def ERROR_TYPES_def
      analyze_and_suggest_fix_def)




end
